theory Spec2Isabelle
  imports Main "HOL-Library.Word"
begin

section \<open>The witness record (internal/witness/types.go)\<close>

text \<open>
  Go's \<open>int\<close> is a 64-bit two's complement integer on the 64-bit platforms the
  program is built for: \<open>+\<close> wraps around, comparisons are the signed ones
  (\<open><s\<close>, \<open>\<le>s\<close>), \<open>sint\<close> reads the value. A \<open>time.Time\<close> is an instant, modelled as
  an integer count of clock units; a \<open>*time.Time\<close> is an optional instant.
\<close>

type_synonym go_int = "64 word"
type_synonym time = int

text \<open>\<open>type State string\<close> with its three named constants.\<close>

type_synonym State = string

definition StateStopped :: State where
  "StateStopped = ''stopped''"

definition StateRunning :: State where
  "StateRunning = ''running''"

definition StatePaused :: State where
  "StatePaused = ''paused''"

record WitnessStats =
  TotalChecks :: go_int
  TotalNudges :: go_int
  TotalEscalations :: go_int
  TodayChecks :: go_int
  TodayNudges :: go_int

record Witness =
  RigName :: string
  State :: State
  PID :: go_int
  StartedAt :: "time option"
  MonitoredPolecats :: "string list"
  LastCheckAt :: "time option"
  Stats :: WitnessStats

text \<open>The zero value of \<open>WitnessStats\<close>, as a Go composite literal leaves it.\<close>

definition zeroStats :: WitnessStats where
  "zeroStats = \<lparr>TotalChecks = 0, TotalNudges = 0, TotalEscalations = 0,
                 TodayChecks = 0, TodayNudges = 0\<rparr>"

section \<open>The rig and the manager (internal/witness/manager.go)\<close>

text \<open>
  Of \<open>rig.Rig\<close> the manager reads three fields: \<open>Name\<close>, \<open>Path\<close> and the roster
  \<open>Polecats\<close>.
\<close>

record Rig =
  Name :: string
  Path :: string
  Polecats :: "string list"

record Manager =
  rig :: Rig
  workDir :: string

definition NewManager :: "Rig \<Rightarrow> Manager" where
  "NewManager r = \<lparr>rig = r, workDir = Path r\<rparr>"

datatype error =
  ErrNotRunning
  | ErrAlreadyRunning
  | ErrNotExist
  | ErrIO
  | ErrDecode
  | ErrUnsupportedSignal
  | ErrProcessDone

text \<open>The text \<open>%v\<close> prints for an error.\<close>

fun Error :: "error \<Rightarrow> string" where
  "Error ErrNotRunning = ''witness not running''"
| "Error ErrAlreadyRunning = ''witness already running''"
| "Error ErrNotExist = ''file does not exist''"
| "Error ErrIO = ''input/output error''"
| "Error ErrDecode = ''invalid character''"
| "Error ErrUnsupportedSignal = ''os: unsupported signal type''"
| "Error ErrProcessDone = ''os: process already finished''"

section \<open>The world the manager acts on\<close>

text \<open>
  A file of the file system holds text that \<open>json.Unmarshal\<close> decodes to a record
  (\<open>Json w\<close>: the file is identified with the record it decodes to), or text that does
  not decode (\<open>Corrupt\<close>), or it exists and cannot be read (\<open>Unreadable\<close>).
\<close>

datatype content = Json Witness | Corrupt | Unreadable

datatype Signal = Interrupt | Kill

datatype Process = Process (Pid: go_int)

record world =
  files :: "string \<rightharpoonup> content"
  dirs :: "string set"
  stdout :: "string list"
  signals :: "(go_int \<times> Signal) list"

text \<open>
  What the operating system answers during one call: the clock, the caller's process
  id, the processes alive, and whether creating the directory or writing the file fails
  (\<open>WriteTruncates\<close>: the write fails after the file was opened and truncated).
\<close>

datatype fault = NoFault | MkdirFails | WriteFails | WriteTruncates

record env =
  now :: time
  getpid :: go_int
  procs :: "go_int set"
  fault :: fault

subsection \<open>Library calls\<close>

text \<open>
  \<open>filepath.Join\<close> puts a separator between the non-empty elements (its final
  \<open>Clean\<close> is left out: paths are taken as clean); \<open>filepath.Dir\<close> drops the last
  element and the separator before it.
\<close>

fun filepath_Join :: "string list \<Rightarrow> string" where
  "filepath_Join [] = []"
| "filepath_Join (x # xs) =
     (if x = [] then filepath_Join xs
      else if filepath_Join xs = [] then x
      else x @ ''/'' @ filepath_Join xs)"

definition filepath_Dir :: "string \<Rightarrow> string" where
  "filepath_Dir p =
     (let d = rev (drop 1 (dropWhile (\<lambda>c. c \<noteq> CHR ''/'') (rev p)))
      in if d = [] then (if CHR ''/'' \<in> set p then ''/'' else ''.'') else d)"

definition os_ReadFile :: "string \<Rightarrow> world \<Rightarrow> error + content" where
  "os_ReadFile p s =
     (case files s p of
        None \<Rightarrow> Inl ErrNotExist
      | Some Unreadable \<Rightarrow> Inl ErrIO
      | Some f \<Rightarrow> Inr f)"

definition os_IsNotExist :: "error \<Rightarrow> bool" where
  "os_IsNotExist err = (err = ErrNotExist)"

definition json_Unmarshal :: "content \<Rightarrow> error + Witness" where
  "json_Unmarshal f = (case f of Json w \<Rightarrow> Inr w | _ \<Rightarrow> Inl ErrDecode)"

text \<open>
  \<open>json.MarshalIndent\<close> of a \<open>Witness\<close> has no failing field here (a \<open>time.Time\<close>
  fails only for a year outside 0..9999, which neither the clock nor a decoded file
  gives); the error branch of its caller is kept.
\<close>

definition json_MarshalIndent :: "Witness \<Rightarrow> error + content" where
  "json_MarshalIndent w = Inr (Json w)"

definition os_MkdirAll :: "env \<Rightarrow> string \<Rightarrow> world \<Rightarrow> error option \<times> world" where
  "os_MkdirAll e dir s =
     (if fault e = MkdirFails then (Some ErrIO, s)
      else (None, s\<lparr>dirs := insert dir (dirs s)\<rparr>))"

definition os_WriteFile :: "env \<Rightarrow> string \<Rightarrow> content \<Rightarrow> world \<Rightarrow> error option \<times> world" where
  "os_WriteFile e p d s =
     (case fault e of
        WriteFails \<Rightarrow> (Some ErrIO, s)
      | WriteTruncates \<Rightarrow> (Some ErrIO, s\<lparr>files := (files s)(p \<mapsto> Corrupt)\<rparr>)
      | _ \<Rightarrow> (None, s\<lparr>files := (files s)(p \<mapsto> d)\<rparr>))"

text \<open>
  On Unix \<open>os.FindProcess\<close> always succeeds. \<open>Process.Signal\<close> takes an \<open>os.Signal\<close>
  interface value and type-asserts it to \<open>syscall.Signal\<close> before it calls kill(2); the
  nil interface value (\<open>None\<close>) fails that assertion, and the call returns the error
  "os: unsupported signal type" without probing the process. A real signal is
  delivered when the process is alive and fails with "process already finished"
  otherwise.
\<close>

definition os_FindProcess :: "go_int \<Rightarrow> error + Process" where
  "os_FindProcess pid = Inr (Process pid)"

definition Process_Signal ::
  "env \<Rightarrow> Process \<Rightarrow> Signal option \<Rightarrow> world \<Rightarrow> error option \<times> world" where
  "Process_Signal e p sig s =
     (case sig of
        None \<Rightarrow> (Some ErrUnsupportedSignal, s)
      | Some sg \<Rightarrow>
          if Pid p \<in> procs e
          then (None, s\<lparr>signals := signals s @ [(Pid p, sg)]\<rparr>)
          else (Some ErrProcessDone, s))"

definition fmt_Println :: "string \<Rightarrow> world \<Rightarrow> world" where
  "fmt_Println l s = s\<lparr>stdout := stdout s @ [l]\<rparr>"

subsection \<open>The state store\<close>

definition stateFile :: "Manager \<Rightarrow> string" where
  "stateFile m = filepath_Join [Path (rig m), ''.gastown'', ''witness.json'']"

definition loadState :: "Manager \<Rightarrow> world \<Rightarrow> error + Witness" where
  "loadState m s =
     (case os_ReadFile (stateFile m) s of
        Inl err \<Rightarrow>
          if os_IsNotExist err
          then Inr \<lparr>RigName = Name (rig m), State = StateStopped, PID = 0,
                    StartedAt = None, MonitoredPolecats = [], LastCheckAt = None,
                    Stats = zeroStats\<rparr>
          else Inl err
      | Inr d \<Rightarrow> json_Unmarshal d)"

definition saveState :: "env \<Rightarrow> Manager \<Rightarrow> Witness \<Rightarrow> world \<Rightarrow> error option \<times> world" where
  "saveState e m w s =
     (case os_MkdirAll e (filepath_Dir (stateFile m)) s of
        (Some err, s1) \<Rightarrow> (Some err, s1)
      | (None, s1) \<Rightarrow>
          (case json_MarshalIndent w of
             Inl err \<Rightarrow> (Some err, s1)
           | Inr d \<Rightarrow> os_WriteFile e (stateFile m) d s1))"

subsection \<open>The process probe\<close>

definition processExists :: "env \<Rightarrow> go_int \<Rightarrow> world \<Rightarrow> bool" where
  "processExists e pid s =
     (case os_FindProcess pid of
        Inl err \<Rightarrow> False
      | Inr proc \<Rightarrow> fst (Process_Signal e proc None s) = None)"

subsection \<open>Status, Start, Stop\<close>

text \<open>
  \<open>Status\<close> mutates the loaded record in place and drops the result of the
  \<open>saveState\<close> call of its self-heal branch.
\<close>

definition Status :: "env \<Rightarrow> Manager \<Rightarrow> world \<Rightarrow> (error + Witness) \<times> world" where
  "Status e m s =
     (case loadState m s of
        Inl err \<Rightarrow> (Inl err, s)
      | Inr w \<Rightarrow>
          (case (if State w = StateRunning \<and> 0 <s PID w
                 then (if \<not> processExists e (PID w) s
                       then (w\<lparr>State := StateStopped, PID := 0\<rparr>,
                             snd (saveState e m (w\<lparr>State := StateStopped, PID := 0\<rparr>) s))
                       else (w, s))
                 else (w, s)) of
             (w1, s1) \<Rightarrow> (Inr (w1\<lparr>MonitoredPolecats := Polecats (rig m)\<rparr>), s1)))"

definition healthCheck ::
  "env \<Rightarrow> Manager \<Rightarrow> Witness \<Rightarrow> world \<Rightarrow> error option \<times> Witness \<times> world" where
  "healthCheck e m w s =
     (let w1 = w\<lparr>LastCheckAt := Some (now e)\<rparr>;
          w2 = w1\<lparr>Stats := (Stats w1)\<lparr>TotalChecks := TotalChecks (Stats w1) + 1\<rparr>\<rparr>;
          w3 = w2\<lparr>Stats := (Stats w2)\<lparr>TodayChecks := TodayChecks (Stats w2) + 1\<rparr>\<rparr>
      in (case saveState e m w3 s of (r, s1) \<Rightarrow> (r, w3, s1)))"

text \<open>
  The monitoring loop has no return and no break. The model runs it over the ticks
  the ticker has delivered so far, one \<open>env\<close> for each tick; \<open>Blocked\<close> says that the
  call has not returned: it waits for the next tick.
\<close>

datatype outcome = Returned "error option" | Blocked

fun run_loop :: "Manager \<Rightarrow> env list \<Rightarrow> Witness \<Rightarrow> world \<Rightarrow> outcome \<times> Witness \<times> world" where
  "run_loop m [] w s = (Blocked, w, s)"
| "run_loop m (e # es) w s =
     (case healthCheck e m w s of
        (Some err, w1, s1) \<Rightarrow>
          run_loop m es w1 (fmt_Println (''Health check error: '' @ Error err) s1)
      | (None, w1, s1) \<Rightarrow> run_loop m es w1 s1)"

definition run :: "Manager \<Rightarrow> env list \<Rightarrow> Witness \<Rightarrow> world \<Rightarrow> outcome \<times> Witness \<times> world" where
  "run m ticks w s =
     run_loop m ticks w
       (fmt_Println ''Press Ctrl+C to stop'' (fmt_Println ''Witness running...'' s))"

definition Start :: "env \<Rightarrow> Manager \<Rightarrow> bool \<Rightarrow> env list \<Rightarrow> world \<Rightarrow> outcome \<times> world" where
  "Start e m foreground ticks s =
     (case loadState m s of
        Inl err \<Rightarrow> (Returned (Some err), s)
      | Inr w \<Rightarrow>
          if State w = StateRunning \<and> 0 <s PID w \<and> processExists e (PID w) s
          then (Returned (Some ErrAlreadyRunning), s)
          else
            (let w1 = w\<lparr>State := StateRunning, StartedAt := Some (now e),
                        PID := getpid e, MonitoredPolecats := Polecats (rig m)\<rparr>
             in case saveState e m w1 s of
                  (Some err, s1) \<Rightarrow> (Returned (Some err), s1)
                | (None, s1) \<Rightarrow>
                    if foreground
                    then (case run m ticks w1 s1 of (r, w2, s2) \<Rightarrow> (r, s2))
                    else (Returned None, s1)))"

text \<open>
  \<open>Stop\<close> sends \<open>os.Interrupt\<close> to the recorded process when it is not the caller
  itself, ignores whether that worked, and saves the stopped record.
\<close>

definition Stop :: "env \<Rightarrow> Manager \<Rightarrow> world \<Rightarrow> error option \<times> world" where
  "Stop e m s =
     (case loadState m s of
        Inl err \<Rightarrow> (Some err, s)
      | Inr w \<Rightarrow>
          if State w \<noteq> StateRunning then (Some ErrNotRunning, s)
          else
            (let s1 = (if 0 <s PID w \<and> PID w \<noteq> getpid e
                       then (case os_FindProcess (PID w) of
                               Inr proc \<Rightarrow> snd (Process_Signal e proc (Some Interrupt) s)
                             | Inl err \<Rightarrow> s)
                       else s)
             in saveState e m (w\<lparr>State := StateStopped, PID := 0\<rparr>) s1))"

section \<open>Predicates of the statements\<close>

text \<open>
  \<open>not_earlier new old\<close>: the timestamp \<open>new\<close> is not before the timestamp \<open>old\<close>;
  an absent \<open>old\<close> is before everything.
\<close>

definition not_earlier :: "time option \<Rightarrow> time option \<Rightarrow> bool" where
  "not_earlier new old =
     (case old of
        None \<Rightarrow> True
      | Some t \<Rightarrow> (case new of None \<Rightarrow> False | Some t' \<Rightarrow> t \<le> t'))"

text \<open>\<open>stats_le a b\<close>: no counter of \<open>b\<close> is below the same counter of \<open>a\<close>.\<close>

definition stats_le :: "WitnessStats \<Rightarrow> WitnessStats \<Rightarrow> bool" where
  "stats_le a b =
     (TotalChecks a \<le>s TotalChecks b \<and> TotalNudges a \<le>s TotalNudges b \<and>
      TotalEscalations a \<le>s TotalEscalations b \<and> TodayChecks a \<le>s TodayChecks b \<and>
      TodayNudges a \<le>s TodayNudges b)"

section \<open>Concrete inputs\<close>

text \<open>
  A rig with a roster of two, a record whose monitored list is stale, a file system
  whose only file is the rig's state file, and a call made at time 200 by process 77
  while processes 77 and 4242 are alive.
\<close>

definition rig0 :: Rig where
  "rig0 = \<lparr>Name = ''gastown'', Path = ''/srv/gastown'', Polecats = [''Toast'', ''Nux'']\<rparr>"

definition stats0 :: WitnessStats where
  "stats0 = \<lparr>TotalChecks = 7, TotalNudges = 1, TotalEscalations = 0,
             TodayChecks = 3, TodayNudges = 1\<rparr>"

definition witness0 :: "State \<Rightarrow> go_int \<Rightarrow> Witness" where
  "witness0 st p = \<lparr>RigName = ''gastown'', State = st, PID = p, StartedAt = Some 100,
                    MonitoredPolecats = [''Old''], LastCheckAt = Some 150, Stats = stats0\<rparr>"

definition world0 :: "content option \<Rightarrow> world" where
  "world0 f = \<lparr>files = (\<lambda>p. if p = stateFile (NewManager rig0) then f else None),
               dirs = {}, stdout = [], signals = []\<rparr>"

definition env0 :: "fault \<Rightarrow> env" where
  "env0 f = \<lparr>now = 200, getpid = 77, procs = {77, 4242}, fault = f\<rparr>"

text \<open>The largest \<open>int\<close>, and a record whose \<open>TotalChecks\<close> has reached it.\<close>

definition max_int :: go_int where
  "max_int = 0x7FFFFFFFFFFFFFFF"

definition witness_max :: Witness where
  "witness_max = (witness0 StateRunning 77)\<lparr>Stats := stats0\<lparr>TotalChecks := max_int\<rparr>\<rparr>"

text \<open>
  A Stopped record whose \<open>TotalChecks\<close> is the largest \<open>int\<close>, and a record that another
  loop on the same rig has carried to 10 and 6 checks.
\<close>

definition stopped_max :: Witness where
  "stopped_max = (witness0 StateStopped 0)\<lparr>Stats := stats0\<lparr>TotalChecks := max_int\<rparr>\<rparr>"

definition witness_ahead :: Witness where
  "witness_ahead =
     (witness0 StateRunning 88)\<lparr>Stats := stats0\<lparr>TotalChecks := 10, TodayChecks := 6\<rparr>\<rparr>"

section \<open>Facts about the state store and the probe\<close>

lemma saveState_cases:
  "saveState e m w s =
     (case fault e of
        NoFault \<Rightarrow> (None, s\<lparr>dirs := insert (filepath_Dir (stateFile m)) (dirs s),
              files := (files s)(stateFile m \<mapsto> Json w)\<rparr>)
      | MkdirFails \<Rightarrow> (Some ErrIO, s)
      | WriteFails \<Rightarrow> (Some ErrIO, s\<lparr>dirs := insert (filepath_Dir (stateFile m)) (dirs s)\<rparr>)
      | WriteTruncates \<Rightarrow> (Some ErrIO, s\<lparr>dirs := insert (filepath_Dir (stateFile m)) (dirs s),
              files := (files s)(stateFile m \<mapsto> Corrupt)\<rparr>))"
  by (simp add: saveState_def os_MkdirAll_def json_MarshalIndent_def os_WriteFile_def
      split: fault.splits)

lemma saveState_NoFault:
  "fault e = NoFault \<Longrightarrow>
   saveState e m w s =
     (None, s\<lparr>dirs := insert (filepath_Dir (stateFile m)) (dirs s),
              files := (files s)(stateFile m \<mapsto> Json w)\<rparr>)"
  by (simp add: saveState_cases)

lemma saveState_fails:
  "fault e \<noteq> NoFault \<Longrightarrow> fst (saveState e m w s) = Some ErrIO"
  by (cases "fault e") (simp_all add: saveState_cases)

lemma saveState_stdout: "stdout (snd (saveState e m w s)) = stdout s"
  by (cases "fault e") (simp_all add: saveState_cases)

lemma loadState_Json:
  "files s (stateFile m) = Some (Json w) \<Longrightarrow> loadState m s = Inr w"
  by (simp add: loadState_def os_ReadFile_def json_Unmarshal_def)

lemma loadState_absent:
  "files s (stateFile m) = None \<Longrightarrow>
   loadState m s = Inr \<lparr>RigName = Name (rig m), State = StateStopped, PID = 0,
                    StartedAt = None, MonitoredPolecats = [], LastCheckAt = None,
                    Stats = zeroStats\<rparr>"
  by (simp add: loadState_def os_ReadFile_def os_IsNotExist_def)

lemma Stopped_not_Running: "StateStopped \<noteq> StateRunning"
  by (simp add: StateStopped_def StateRunning_def)

lemma load_world0: "loadState (NewManager rig0) (world0 (Some (Json w))) = Inr w"
  by (simp add: loadState_Json world0_def)

text \<open>
  The probe passes \<open>nil\<close> to \<open>Process.Signal\<close>, so it answers false for every pid,
  whatever processes are alive.
\<close>

lemma processExists_False: "processExists e pid s = False"
  by (simp add: processExists_def os_FindProcess_def Process_Signal_def)

text \<open>The loop never returns, whatever the ticks bring.\<close>

lemma run_loop_Blocked: "fst (run_loop m es w s) = Blocked"
  by (induction es arbitrary: w s) (auto split: prod.splits option.splits)

lemma run_Blocked: "fst (run m es w s) = Blocked"
  by (simp add: run_def run_loop_Blocked)

section \<open>Stop on a witness that is not running\<close>

text \<open>
  Claim C4. For every persisted record whose state is not Running (Stopped, Paused or
  any other text), \<open>Stop\<close> returns \<open>ErrNotRunning\<close> and leaves the world, the
  state file included, as it was.
\<close>

theorem Stop_not_running:
  assumes "loadState m s = Inr w" and "State w \<noteq> StateRunning"
  shows "Stop e m s = (Some ErrNotRunning, s)"
  using assms by (simp add: Stop_def)

theorem Stop_not_running_witness:
  "loadState (NewManager rig0) (world0 (Some (Json (witness0 StatePaused 0)))) =
     Inr (witness0 StatePaused 0) \<and>
   State (witness0 StatePaused 0) \<noteq> StateRunning \<and>
   Stop (env0 NoFault) (NewManager rig0) (world0 (Some (Json (witness0 StatePaused 0)))) =
     (Some ErrNotRunning, world0 (Some (Json (witness0 StatePaused 0))))"
proof -
  have a: "loadState (NewManager rig0) (world0 (Some (Json (witness0 StatePaused 0)))) =
     Inr (witness0 StatePaused 0)"
    by (rule load_world0)
  have b: "State (witness0 StatePaused 0) \<noteq> StateRunning"
    by (simp add: witness0_def StatePaused_def StateRunning_def)
  from a b Stop_not_running [OF a b, of "env0 NoFault"] show ?thesis by simp
qed

section \<open>Status without a state file\<close>

text \<open>
  Claim C5. When the rig has no state file, \<open>loadState\<close> returns without error the
  record with the rig's name, state Stopped, pid 0, no timestamps and zeroed stats;
  \<open>Status\<close> returns that record with the rig's roster as its monitored list, and the
  world it leaves is the world it found: no file and no directory is created.
\<close>

theorem Status_no_state_file:
  assumes "files s (stateFile m) = None"
  shows "loadState m s =
           Inr \<lparr>RigName = Name (rig m), State = StateStopped, PID = 0, StartedAt = None,
                MonitoredPolecats = [], LastCheckAt = None, Stats = zeroStats\<rparr> \<and>
         Status e m s =
           (Inr \<lparr>RigName = Name (rig m), State = StateStopped, PID = 0, StartedAt = None,
                 MonitoredPolecats = Polecats (rig m), LastCheckAt = None,
                 Stats = zeroStats\<rparr>, s)"
  using assms by (simp add: Status_def loadState_absent Stopped_not_Running)

theorem Status_no_state_file_witness:
  "files (world0 None) (stateFile (NewManager rig0)) = None \<and>
   Status (env0 NoFault) (NewManager rig0) (world0 None) =
     (Inr \<lparr>RigName = ''gastown'', State = ''stopped'', PID = 0, StartedAt = None,
           MonitoredPolecats = [''Toast'', ''Nux''], LastCheckAt = None,
           Stats = \<lparr>TotalChecks = 0, TotalNudges = 0, TotalEscalations = 0,
                     TodayChecks = 0, TodayNudges = 0\<rparr>\<rparr>, world0 None)"
proof -
  have a: "files (world0 None) (stateFile (NewManager rig0)) = None"
    by (simp add: world0_def)
  from a Status_no_state_file [OF a, of "env0 NoFault"] show ?thesis
    by (simp add: NewManager_def rig0_def StateStopped_def zeroStats_def)
qed

section \<open>The roster returned by Status\<close>

text \<open>
  Claim C6. For every persisted record, Running or not, \<open>Status\<close> returns a record
  and no error: the loaded record, healed when the self-heal applies, with the rig's
  current roster as its monitored list, whatever list the state file held.
\<close>

theorem Status_roster:
  assumes "loadState m s = Inr w"
  shows "fst (Status e m s) =
           Inr ((if State w = StateRunning \<and> 0 <s PID w \<and> \<not> processExists e (PID w) s
                 then w\<lparr>State := StateStopped, PID := 0\<rparr> else w)
                \<lparr>MonitoredPolecats := Polecats (rig m)\<rparr>) \<and>
         (\<exists>w'. fst (Status e m s) = Inr w' \<and> MonitoredPolecats w' = Polecats (rig m))"
  using assms by (simp add: Status_def)

theorem Status_roster_witness:
  "loadState (NewManager rig0) (world0 (Some (Json (witness0 StateRunning 999)))) =
     Inr (witness0 StateRunning 999) \<and>
   MonitoredPolecats (witness0 StateRunning 999) = [''Old''] \<and>
   fst (Status (env0 NoFault) (NewManager rig0) (world0 (Some (Json (witness0 StateRunning 999))))) =
     Inr ((witness0 StateRunning 999)
            \<lparr>State := StateStopped, PID := 0, MonitoredPolecats := [''Toast'', ''Nux'']\<rparr>) \<and>
   loadState (NewManager rig0) (world0 (Some (Json (witness0 StateStopped 0)))) =
     Inr (witness0 StateStopped 0) \<and>
   fst (Status (env0 NoFault) (NewManager rig0) (world0 (Some (Json (witness0 StateStopped 0))))) =
     Inr ((witness0 StateStopped 0)\<lparr>MonitoredPolecats := [''Toast'', ''Nux'']\<rparr>) \<and>
   Polecats (rig (NewManager rig0)) = [''Toast'', ''Nux'']"
proof -
  have a: "loadState (NewManager rig0) (world0 (Some (Json (witness0 StateRunning 999)))) =
     Inr (witness0 StateRunning 999)"
    by (rule load_world0)
  have a': "loadState (NewManager rig0) (world0 (Some (Json (witness0 StateStopped 0)))) =
     Inr (witness0 StateStopped 0)"
    by (rule load_world0)
  have b: "MonitoredPolecats (witness0 StateRunning 999) = [''Old'']"
    by (simp add: witness0_def)
  have r: "Polecats (rig (NewManager rig0)) = [''Toast'', ''Nux'']"
    by (simp add: NewManager_def rig0_def)
  have c: "State (witness0 StateRunning 999) = StateRunning \<and> 0 <s PID (witness0 StateRunning 999)"
    by (simp add: witness0_def word_sless_alt)
  have c': "State (witness0 StateStopped 0) \<noteq> StateRunning"
    by (simp add: witness0_def Stopped_not_Running)
  from Status_roster [OF a, THEN conjunct1]
  have x: "fst (Status (env0 NoFault) (NewManager rig0)
       (world0 (Some (Json (witness0 StateRunning 999))))) =
     Inr ((witness0 StateRunning 999)
            \<lparr>State := StateStopped, PID := 0, MonitoredPolecats := [''Toast'', ''Nux'']\<rparr>)"
    by (simp add: r c processExists_False)
  from Status_roster [OF a', THEN conjunct1]
  have x': "fst (Status (env0 NoFault) (NewManager rig0)
       (world0 (Some (Json (witness0 StateStopped 0))))) =
     Inr ((witness0 StateStopped 0)\<lparr>MonitoredPolecats := [''Toast'', ''Nux'']\<rparr>)"
    by (simp add: r c')
  from a b x a' x' r show ?thesis
    by blast
qed

section \<open>Self-healing in Status\<close>

text \<open>
  Claim C1, as amended. For every persisted record with state Running and a pid
  greater than zero that belongs to no live process, \<open>Status\<close> returns without error
  the record with state Stopped and pid 0 (and the roster), whether its save succeeds
  or not; when the save succeeds it has written that record to the state file before
  it returns, and the next \<open>loadState\<close> gives state Stopped and pid 0.
\<close>

theorem Status_self_heal:
  assumes "loadState m s = Inr w" and "State w = StateRunning" and "0 <s PID w"
    and "PID w \<notin> procs e"
  shows "fst (Status e m s) =
           Inr (w\<lparr>State := StateStopped, PID := 0, MonitoredPolecats := Polecats (rig m)\<rparr>) \<and>
         (fault e = NoFault \<longrightarrow>
            snd (Status e m s) =
              s\<lparr>dirs := insert (filepath_Dir (stateFile m)) (dirs s),
                files := (files s)(stateFile m \<mapsto> Json (w\<lparr>State := StateStopped, PID := 0\<rparr>))\<rparr> \<and>
            loadState m (snd (Status e m s)) = Inr (w\<lparr>State := StateStopped, PID := 0\<rparr>))"
  using assms
  by (simp add: Status_def processExists_False saveState_NoFault loadState_Json)

theorem Status_self_heal_witness:
  "loadState (NewManager rig0) (world0 (Some (Json (witness0 StateRunning 999)))) =
     Inr (witness0 StateRunning 999) \<and>
   State (witness0 StateRunning 999) = StateRunning \<and>
   0 <s PID (witness0 StateRunning 999) \<and>
   PID (witness0 StateRunning 999) \<notin> procs (env0 NoFault) \<and>
   PID (witness0 StateRunning 999) \<notin> procs (env0 WriteFails) \<and>
   fault (env0 NoFault) = NoFault \<and>
   fst (Status (env0 NoFault) (NewManager rig0) (world0 (Some (Json (witness0 StateRunning 999))))) =
     Inr ((witness0 StateRunning 999)
            \<lparr>State := StateStopped, PID := 0, MonitoredPolecats := [''Toast'', ''Nux'']\<rparr>) \<and>
   loadState (NewManager rig0)
     (snd (Status (env0 NoFault) (NewManager rig0) (world0 (Some (Json (witness0 StateRunning 999)))))) =
     Inr ((witness0 StateRunning 999)\<lparr>State := StateStopped, PID := 0\<rparr>) \<and>
   fst (Status (env0 WriteFails) (NewManager rig0) (world0 (Some (Json (witness0 StateRunning 999))))) =
     Inr ((witness0 StateRunning 999)
            \<lparr>State := StateStopped, PID := 0, MonitoredPolecats := [''Toast'', ''Nux'']\<rparr>)"
proof -
  have a: "loadState (NewManager rig0) (world0 (Some (Json (witness0 StateRunning 999)))) =
     Inr (witness0 StateRunning 999)"
    by (rule load_world0)
  have b: "State (witness0 StateRunning 999) = StateRunning"
    by (simp add: witness0_def)
  have c: "0 <s PID (witness0 StateRunning 999)"
    by (simp add: witness0_def word_sless_alt)
  have d: "PID (witness0 StateRunning 999) \<notin> procs (env0 NoFault)"
    by (simp add: witness0_def env0_def)
  have d': "PID (witness0 StateRunning 999) \<notin> procs (env0 WriteFails)"
    by (simp add: witness0_def env0_def)
  have f: "fault (env0 NoFault) = NoFault"
    by (simp add: env0_def)
  have r: "Polecats (rig (NewManager rig0)) = [''Toast'', ''Nux'']"
    by (simp add: NewManager_def rig0_def)
  note th = Status_self_heal [OF a b c d]
  note th' = Status_self_heal [OF a b c d']
  from th [THEN conjunct1]
  have x: "fst (Status (env0 NoFault) (NewManager rig0)
        (world0 (Some (Json (witness0 StateRunning 999))))) =
     Inr ((witness0 StateRunning 999)
            \<lparr>State := StateStopped, PID := 0, MonitoredPolecats := [''Toast'', ''Nux'']\<rparr>)"
    by (simp add: r)
  from th' [THEN conjunct1]
  have x': "fst (Status (env0 WriteFails) (NewManager rig0)
        (world0 (Some (Json (witness0 StateRunning 999))))) =
     Inr ((witness0 StateRunning 999)
            \<lparr>State := StateStopped, PID := 0, MonitoredPolecats := [''Toast'', ''Nux'']\<rparr>)"
    by (simp add: r)
  from a b c d d' f x x' th [THEN conjunct2, rule_format, OF f, THEN conjunct2] show ?thesis
    by blast
qed

text \<open>
  The claim as stated fails twice. A record with state Running and pid 0 (no process
  has that id) is not healed: the guard \<open>w.PID > 0\<close> skips the probe, and \<open>Status\<close>
  returns state Running and writes nothing. And when the write fails, the record
  returned is healed but the file is not: the next load still gives Running.
\<close>

theorem Status_self_heal_counterexample:
  "State (witness0 StateRunning 0) = StateRunning \<and>
   PID (witness0 StateRunning 0) \<notin> procs (env0 NoFault) \<and>
   Status (env0 NoFault) (NewManager rig0) (world0 (Some (Json (witness0 StateRunning 0)))) =
     (Inr ((witness0 StateRunning 0)\<lparr>MonitoredPolecats := [''Toast'', ''Nux'']\<rparr>),
      world0 (Some (Json (witness0 StateRunning 0)))) \<and>
   StateRunning \<noteq> StateStopped \<and>
   State (witness0 StateRunning 999) = StateRunning \<and>
   PID (witness0 StateRunning 999) \<notin> procs (env0 WriteFails) \<and>
   loadState (NewManager rig0)
     (snd (Status (env0 WriteFails) (NewManager rig0)
            (world0 (Some (Json (witness0 StateRunning 999)))))) =
     Inr (witness0 StateRunning 999)"
proof -
  have r: "Polecats (rig (NewManager rig0)) = [''Toast'', ''Nux'']"
    by (simp add: NewManager_def rig0_def)
  have a: "Status (env0 NoFault) (NewManager rig0) (world0 (Some (Json (witness0 StateRunning 0)))) =
     (Inr ((witness0 StateRunning 0)\<lparr>MonitoredPolecats := [''Toast'', ''Nux'']\<rparr>),
      world0 (Some (Json (witness0 StateRunning 0))))"
    by (simp add: Status_def load_world0 r) (simp add: witness0_def word_sless_alt)
  have b: "loadState (NewManager rig0)
     (snd (Status (env0 WriteFails) (NewManager rig0)
            (world0 (Some (Json (witness0 StateRunning 999)))))) =
     Inr (witness0 StateRunning 999)"
    by (simp add: Status_def load_world0 processExists_False saveState_cases env0_def
          loadState_Json world0_def)
  show ?thesis using a b
    by (simp add: witness0_def env0_def StateRunning_def StateStopped_def)
qed

section \<open>A failed save during the self-heal\<close>

text \<open>
  Claim C10. When \<open>Status\<close> takes the self-heal branch and its \<open>saveState\<close> call
  fails, \<open>Status\<close> still returns the healed record (state Stopped, pid 0, the roster)
  and no error: the error \<open>saveState\<close> returned is dropped, and nothing is printed.
\<close>

theorem Status_drops_save_error:
  assumes "loadState m s = Inr w" and "State w = StateRunning" and "0 <s PID w"
    and "\<not> processExists e (PID w) s" and "fault e \<noteq> NoFault"
  shows "fst (saveState e m (w\<lparr>State := StateStopped, PID := 0\<rparr>) s) = Some ErrIO \<and>
         fst (Status e m s) =
           Inr (w\<lparr>State := StateStopped, PID := 0, MonitoredPolecats := Polecats (rig m)\<rparr>) \<and>
         stdout (snd (Status e m s)) = stdout s"
  using assms by (simp add: Status_def saveState_fails saveState_stdout)

theorem Status_drops_save_error_witness:
  "loadState (NewManager rig0) (world0 (Some (Json (witness0 StateRunning 999)))) =
     Inr (witness0 StateRunning 999) \<and>
   State (witness0 StateRunning 999) = StateRunning \<and>
   0 <s PID (witness0 StateRunning 999) \<and>
   \<not> processExists (env0 WriteTruncates) (PID (witness0 StateRunning 999))
       (world0 (Some (Json (witness0 StateRunning 999)))) \<and>
   fault (env0 WriteTruncates) \<noteq> NoFault \<and>
   fst (Status (env0 WriteTruncates) (NewManager rig0)
          (world0 (Some (Json (witness0 StateRunning 999))))) =
     Inr ((witness0 StateRunning 999)
            \<lparr>State := StateStopped, PID := 0, MonitoredPolecats := [''Toast'', ''Nux'']\<rparr>) \<and>
   loadState (NewManager rig0)
     (snd (Status (env0 WriteTruncates) (NewManager rig0)
            (world0 (Some (Json (witness0 StateRunning 999)))))) = Inl ErrDecode"
proof -
  have a: "loadState (NewManager rig0) (world0 (Some (Json (witness0 StateRunning 999)))) =
     Inr (witness0 StateRunning 999)"
    by (rule load_world0)
  have b: "State (witness0 StateRunning 999) = StateRunning"
    by (simp add: witness0_def)
  have c: "0 <s PID (witness0 StateRunning 999)"
    by (simp add: witness0_def word_sless_alt)
  have d: "\<not> processExists (env0 WriteTruncates) (PID (witness0 StateRunning 999))
       (world0 (Some (Json (witness0 StateRunning 999))))"
    by (simp add: processExists_def os_FindProcess_def Process_Signal_def)
  have f: "fault (env0 WriteTruncates) \<noteq> NoFault"
    by (simp add: env0_def)
  have r: "Polecats (rig (NewManager rig0)) = [''Toast'', ''Nux'']"
    by (simp add: NewManager_def rig0_def)
  have g: "loadState (NewManager rig0)
     (snd (Status (env0 WriteTruncates) (NewManager rig0)
            (world0 (Some (Json (witness0 StateRunning 999)))))) = Inl ErrDecode"
    using b c
    by (simp add: Status_def load_world0 processExists_False saveState_cases env0_def)
       (simp add: loadState_def os_ReadFile_def json_Unmarshal_def world0_def)
  from Status_drops_save_error [OF a b c d f]
  have x: "fst (Status (env0 WriteTruncates) (NewManager rig0)
          (world0 (Some (Json (witness0 StateRunning 999))))) =
     Inr ((witness0 StateRunning 999)
            \<lparr>State := StateStopped, PID := 0, MonitoredPolecats := [''Toast'', ''Nux'']\<rparr>)"
    by (simp add: r)
  from a b c d f x g show ?thesis
    by blast
qed

section \<open>Start on a running witness\<close>

text \<open>
  \<open>Start\<close> returns \<open>ErrAlreadyRunning\<close> only when \<open>processExists\<close> answers true,
  which it never does.
\<close>

lemma loadState_error:
  "loadState m s = Inl err \<Longrightarrow> err = ErrIO \<or> err = ErrDecode"
  by (auto simp add: loadState_def os_ReadFile_def json_Unmarshal_def os_IsNotExist_def
      split: option.splits content.splits if_splits)

lemma run_result_Blocked:
  "(case run m es w s of (r, w2, s2) \<Rightarrow> (r, s2)) = (Blocked, snd (snd (run m es w s)))"
  using run_Blocked [of m es w s] by (cases "run m es w s") simp

lemma Start_loaded:
  "loadState m s = Inr w \<Longrightarrow>
   Start e m foreground ticks s =
     (case saveState e m
             (w\<lparr>State := StateRunning, StartedAt := Some (now e),
                PID := getpid e, MonitoredPolecats := Polecats (rig m)\<rparr>) s of
        (Some err, s1) \<Rightarrow> (Returned (Some err), s1)
      | (None, s1) \<Rightarrow>
          if foreground
          then (Blocked, snd (snd (run m ticks
                  (w\<lparr>State := StateRunning, StartedAt := Some (now e),
                     PID := getpid e, MonitoredPolecats := Polecats (rig m)\<rparr>) s1)))
          else (Returned None, s1))"
  by (cases foreground; cases "fault e")
     (simp_all add: Start_def Let_def processExists_False saveState_cases run_result_Blocked)

lemma Start_never_already_running:
  "fst (Start e m foreground ticks s) \<noteq> Returned (Some ErrAlreadyRunning)"
proof (cases "loadState m s")
  case (Inl err)
  then show ?thesis
    using loadState_error [OF Inl] by (auto simp add: Start_def)
next
  case (Inr w)
  then show ?thesis
    by (cases "fault e") (simp_all add: Start_loaded saveState_cases)
qed

text \<open>
  Claim C3 fails on the code. The state file records state Running with pid 4242 and
  start time 100, and process 4242 is alive. \<open>Start(false)\<close>, called at time 200 by
  process 77, returns nil instead of \<open>ErrAlreadyRunning\<close>, and the state file now
  holds start time 200 and pid 77.
\<close>

theorem Start_alive_pid_overwrites:
  "State (witness0 StateRunning 4242) = StateRunning \<and>
   0 <s PID (witness0 StateRunning 4242) \<and>
   PID (witness0 StateRunning 4242) \<in> procs (env0 NoFault) \<and>
   StartedAt (witness0 StateRunning 4242) = Some 100 \<and>
   fst (Start (env0 NoFault) (NewManager rig0) False []
          (world0 (Some (Json (witness0 StateRunning 4242))))) = Returned None \<and>
   loadState (NewManager rig0)
     (snd (Start (env0 NoFault) (NewManager rig0) False []
            (world0 (Some (Json (witness0 StateRunning 4242)))))) =
     Inr ((witness0 StateRunning 4242)
            \<lparr>StartedAt := Some 200, PID := 77, MonitoredPolecats := [''Toast'', ''Nux'']\<rparr>)"
proof -
  have r: "Polecats (rig (NewManager rig0)) = [''Toast'', ''Nux'']"
    by (simp add: NewManager_def rig0_def)
  have a: "Start (env0 NoFault) (NewManager rig0) False []
          (world0 (Some (Json (witness0 StateRunning 4242)))) =
        (Returned None,
         (world0 (Some (Json (witness0 StateRunning 4242))))
           \<lparr>dirs := insert (filepath_Dir (stateFile (NewManager rig0)))
                     (dirs (world0 (Some (Json (witness0 StateRunning 4242))))),
            files := (files (world0 (Some (Json (witness0 StateRunning 4242)))))
               (stateFile (NewManager rig0) \<mapsto>
                  Json ((witness0 StateRunning 4242)
                      \<lparr>State := StateRunning, StartedAt := Some 200, PID := 77,
                         MonitoredPolecats := [''Toast'', ''Nux'']\<rparr>))\<rparr>)"
    by (simp add: Start_def Let_def load_world0 processExists_False saveState_cases r)
       (simp add: env0_def)
  show ?thesis
    by (simp add: a loadState_Json) (simp add: witness0_def env0_def word_sless_alt)
qed


section \<open>A successful Start\<close>

lemma run_Nil:
  "run m [] w s =
     (Blocked, w, s\<lparr>stdout := stdout s @ [''Witness running...'', ''Press Ctrl+C to stop'']\<rparr>)"
  by (simp add: run_def fmt_Println_def)

text \<open>
  Claim C2. For every persisted record that is not Running with a live pid, \<open>Start\<close>
  succeeds (returns nil, or stays in the monitoring loop) exactly when its save does not
  fail. When the save does not fail: in background mode the call returns nil, and its only
  effect is to have written to the state file the record with state Running, start time
  now, the caller's process id and the rig's roster, whatever ticks would follow; in
  foreground mode the call has written the same record, with the caller's process id,
  before the first tick, and stays in the monitoring loop.
\<close>

theorem Start_success:
  assumes "loadState m s = Inr w"
    and "\<not> (State w = StateRunning \<and> 0 <s PID w \<and> PID w \<in> procs e)"
  shows "((fst (Start e m foreground ticks s) = Returned None \<or>
           fst (Start e m foreground ticks s) = Blocked) = (fault e = NoFault)) \<and>
         (fault e = NoFault \<longrightarrow>
            Start e m False ticks s =
              (Returned None,
               s\<lparr>dirs := insert (filepath_Dir (stateFile m)) (dirs s),
                 files := (files s)(stateFile m \<mapsto>
                   Json (w\<lparr>State := StateRunning, StartedAt := Some (now e),
                           PID := getpid e, MonitoredPolecats := Polecats (rig m)\<rparr>))\<rparr>) \<and>
            Start e m True [] s =
              (Blocked,
               s\<lparr>dirs := insert (filepath_Dir (stateFile m)) (dirs s),
                 files := (files s)(stateFile m \<mapsto>
                   Json (w\<lparr>State := StateRunning, StartedAt := Some (now e),
                           PID := getpid e, MonitoredPolecats := Polecats (rig m)\<rparr>)),
                 stdout := stdout s @ [''Witness running...'', ''Press Ctrl+C to stop'']\<rparr>) \<and>
            fst (Start e m True ticks s) = Blocked \<and>
            loadState m (snd (Start e m foreground [] s)) =
              Inr (w\<lparr>State := StateRunning, StartedAt := Some (now e), PID := getpid e,
                     MonitoredPolecats := Polecats (rig m)\<rparr>))"
proof -
  have A: "(fst (Start e m foreground ticks s) = Returned None \<or>
           fst (Start e m foreground ticks s) = Blocked) = (fault e = NoFault)"
    by (cases "fault e"; cases foreground)
       (simp_all add: Start_loaded [OF assms(1)] saveState_cases)
  have B: "Start e m False ticks s =
              (Returned None,
               s\<lparr>dirs := insert (filepath_Dir (stateFile m)) (dirs s),
                 files := (files s)(stateFile m \<mapsto>
                   Json (w\<lparr>State := StateRunning, StartedAt := Some (now e),
                           PID := getpid e, MonitoredPolecats := Polecats (rig m)\<rparr>))\<rparr>) \<and>
            Start e m True [] s =
              (Blocked,
               s\<lparr>dirs := insert (filepath_Dir (stateFile m)) (dirs s),
                 files := (files s)(stateFile m \<mapsto>
                   Json (w\<lparr>State := StateRunning, StartedAt := Some (now e),
                           PID := getpid e, MonitoredPolecats := Polecats (rig m)\<rparr>)),
                 stdout := stdout s @ [''Witness running...'', ''Press Ctrl+C to stop'']\<rparr>) \<and>
            fst (Start e m True ticks s) = Blocked \<and>
            loadState m (snd (Start e m foreground [] s)) =
              Inr (w\<lparr>State := StateRunning, StartedAt := Some (now e), PID := getpid e,
                     MonitoredPolecats := Polecats (rig m)\<rparr>)"
    if nf: "fault e = NoFault"
    by (cases foreground)
       (simp_all add: Start_loaded [OF assms(1)] saveState_NoFault [OF nf] run_Nil loadState_Json)
  from A B show ?thesis by blast
qed

theorem Start_success_witness:
  "loadState (NewManager rig0) (world0 (Some (Json (witness0 StateStopped 0)))) =
     Inr (witness0 StateStopped 0) \<and>
   \<not> (State (witness0 StateStopped 0) = StateRunning \<and> 0 <s PID (witness0 StateStopped 0) \<and>
      PID (witness0 StateStopped 0) \<in> procs (env0 NoFault)) \<and>
   fault (env0 NoFault) = NoFault \<and>
   fst (Start (env0 NoFault) (NewManager rig0) False []
          (world0 (Some (Json (witness0 StateStopped 0))))) = Returned None \<and>
   loadState (NewManager rig0)
     (snd (Start (env0 NoFault) (NewManager rig0) False []
            (world0 (Some (Json (witness0 StateStopped 0)))))) =
     Inr ((witness0 StateStopped 0)
            \<lparr>State := StateRunning, StartedAt := Some 200, PID := 77,
               MonitoredPolecats := [''Toast'', ''Nux'']\<rparr>) \<and>
   fst (Start (env0 NoFault) (NewManager rig0) True []
          (world0 (Some (Json (witness0 StateStopped 0))))) = Blocked \<and>
   loadState (NewManager rig0)
     (snd (Start (env0 NoFault) (NewManager rig0) True []
            (world0 (Some (Json (witness0 StateStopped 0)))))) =
     Inr ((witness0 StateStopped 0)
            \<lparr>State := StateRunning, StartedAt := Some 200, PID := 77,
               MonitoredPolecats := [''Toast'', ''Nux'']\<rparr>)"
proof -
  have a: "loadState (NewManager rig0) (world0 (Some (Json (witness0 StateStopped 0)))) =
     Inr (witness0 StateStopped 0)"
    by (rule load_world0)
  have b: "\<not> (State (witness0 StateStopped 0) = StateRunning \<and>
      0 <s PID (witness0 StateStopped 0) \<and>
      PID (witness0 StateStopped 0) \<in> procs (env0 NoFault))"
    by (simp add: witness0_def Stopped_not_Running)
  have f: "fault (env0 NoFault) = NoFault"
    by (simp add: env0_def)
  have r: "Polecats (rig (NewManager rig0)) = [''Toast'', ''Nux'']"
    by (simp add: NewManager_def rig0_def)
  have n: "now (env0 NoFault) = 200" "getpid (env0 NoFault) = 77"
    by (simp_all add: env0_def)
  note bg = Start_success [OF a b, where foreground = False and ticks = "[]",
      THEN conjunct2, rule_format, OF f]
  note fg = Start_success [OF a b, where foreground = True and ticks = "[]",
      THEN conjunct2, rule_format, OF f]
  from bg [THEN conjunct1]
  have x1: "fst (Start (env0 NoFault) (NewManager rig0) False []
          (world0 (Some (Json (witness0 StateStopped 0))))) = Returned None"
    by simp
  from bg [THEN conjunct2, THEN conjunct2, THEN conjunct2]
  have x2: "loadState (NewManager rig0)
     (snd (Start (env0 NoFault) (NewManager rig0) False []
            (world0 (Some (Json (witness0 StateStopped 0)))))) =
     Inr ((witness0 StateStopped 0)
            \<lparr>State := StateRunning, StartedAt := Some 200, PID := 77,
               MonitoredPolecats := [''Toast'', ''Nux'']\<rparr>)"
    by (simp add: r n)
  from fg [THEN conjunct2, THEN conjunct2, THEN conjunct1]
  have y1: "fst (Start (env0 NoFault) (NewManager rig0) True []
          (world0 (Some (Json (witness0 StateStopped 0))))) = Blocked"
    by simp
  from fg [THEN conjunct2, THEN conjunct2, THEN conjunct2]
  have y2: "loadState (NewManager rig0)
     (snd (Start (env0 NoFault) (NewManager rig0) True []
            (world0 (Some (Json (witness0 StateStopped 0)))))) =
     Inr ((witness0 StateStopped 0)
            \<lparr>State := StateRunning, StartedAt := Some 200, PID := 77,
               MonitoredPolecats := [''Toast'', ''Nux'']\<rparr>)"
    by (simp add: r n)
  from a b f x1 x2 y1 y2 show ?thesis
    by blast
qed

section \<open>One health-check tick\<close>

lemma sint_succ:
  fixes x :: go_int
  assumes "sint x < 9223372036854775807"
  shows "sint (x + 1) = sint x + 1"
proof -
  have lo: "- (2 ^ 63) \<le> sint x"
    using sint_ge [of x] by simp
  have "sint (x + 1) = signed_take_bit 63 (sint x + 1)"
    by (simp add: sint_word_add)
  also have "\<dots> = sint x + 1"
    by (rule signed_take_bit_int_eq_self) (use lo assms in simp_all)
  finally show ?thesis .
qed

lemma healthCheck_result:
  "healthCheck e m w s =
     (fst (saveState e m
             (w\<lparr>LastCheckAt := Some (now e),
                Stats := (Stats w)\<lparr>TotalChecks := TotalChecks (Stats w) + 1,
                                   TodayChecks := TodayChecks (Stats w) + 1\<rparr>\<rparr>) s),
      w\<lparr>LastCheckAt := Some (now e),
        Stats := (Stats w)\<lparr>TotalChecks := TotalChecks (Stats w) + 1,
                           TodayChecks := TodayChecks (Stats w) + 1\<rparr>\<rparr>,
      snd (saveState e m
             (w\<lparr>LastCheckAt := Some (now e),
                Stats := (Stats w)\<lparr>TotalChecks := TotalChecks (Stats w) + 1,
                                   TodayChecks := TodayChecks (Stats w) + 1\<rparr>\<rparr>) s))"
  by (simp add: healthCheck_def Let_def split: prod.splits)

text \<open>
  Claim C7, as amended. A health-check tick adds 1 to \<open>TotalChecks\<close> and
  \<open>TodayChecks\<close> in Go's \<open>int\<close> arithmetic, sets \<open>LastCheckAt\<close> to the clock
  reading of the tick and changes nothing else in the record. So for every record whose
  two counters are below the largest \<open>int\<close>, at a tick whose clock reading is not
  earlier than the recorded \<open>LastCheckAt\<close> and whose save succeeds: both counters grow
  by exactly 1, \<open>LastCheckAt\<close> is not earlier than it was, the nudge and escalation
  counters and all other fields are unchanged, and the state file holds the updated
  record.
\<close>

theorem healthCheck_tick:
  assumes "sint (TotalChecks (Stats w)) < 9223372036854775807"
    and "sint (TodayChecks (Stats w)) < 9223372036854775807"
    and "not_earlier (Some (now e)) (LastCheckAt w)"
    and "fault e = NoFault"
    and "healthCheck e m w s = (r, w', s')"
  shows "r = None \<and>
         w' = w\<lparr>LastCheckAt := Some (now e),
                Stats := (Stats w)\<lparr>TotalChecks := TotalChecks (Stats w) + 1,
                                   TodayChecks := TodayChecks (Stats w) + 1\<rparr>\<rparr> \<and>
         sint (TotalChecks (Stats w')) = sint (TotalChecks (Stats w)) + 1 \<and>
         sint (TodayChecks (Stats w')) = sint (TodayChecks (Stats w)) + 1 \<and>
         TotalNudges (Stats w') = TotalNudges (Stats w) \<and>
         TotalEscalations (Stats w') = TotalEscalations (Stats w) \<and>
         TodayNudges (Stats w') = TodayNudges (Stats w) \<and>
         not_earlier (LastCheckAt w') (LastCheckAt w) \<and>
         loadState m s' = Inr w'"
proof -
  from assms(5) have w': "w' = w\<lparr>LastCheckAt := Some (now e),
        Stats := (Stats w)\<lparr>TotalChecks := TotalChecks (Stats w) + 1,
                           TodayChecks := TodayChecks (Stats w) + 1\<rparr>\<rparr>"
    and r: "r = fst (saveState e m w' s)" and s': "s' = snd (saveState e m w' s)"
    by (auto simp add: healthCheck_result)
  have "r = None" and "loadState m s' = Inr w'"
    unfolding r s' by (simp_all add: saveState_NoFault [OF assms(4)] loadState_Json)
  moreover have "sint (TotalChecks (Stats w')) = sint (TotalChecks (Stats w)) + 1"
    and "sint (TodayChecks (Stats w')) = sint (TodayChecks (Stats w)) + 1"
    unfolding w' by (simp_all add: sint_succ assms(1,2))
  moreover have "not_earlier (LastCheckAt w') (LastCheckAt w)"
    using assms(3) unfolding w' by simp
  ultimately show ?thesis
    using w' by simp
qed

theorem healthCheck_tick_witness:
  "sint (TotalChecks (Stats (witness0 StateRunning 77))) < 9223372036854775807 \<and>
   sint (TodayChecks (Stats (witness0 StateRunning 77))) < 9223372036854775807 \<and>
   not_earlier (Some (now (env0 NoFault))) (LastCheckAt (witness0 StateRunning 77)) \<and>
   fault (env0 NoFault) = NoFault \<and>
   fst (healthCheck (env0 NoFault) (NewManager rig0) (witness0 StateRunning 77)
          (world0 (Some (Json (witness0 StateRunning 77))))) = None \<and>
   loadState (NewManager rig0)
     (snd (snd (healthCheck (env0 NoFault) (NewManager rig0) (witness0 StateRunning 77)
                  (world0 (Some (Json (witness0 StateRunning 77))))))) =
     Inr ((witness0 StateRunning 77)
            \<lparr>LastCheckAt := Some 200,
               Stats := \<lparr>TotalChecks = 8, TotalNudges = 1, TotalEscalations = 0,
                          TodayChecks = 4, TodayNudges = 1\<rparr>\<rparr>)"
proof -
  have a: "sint (TotalChecks (Stats (witness0 StateRunning 77))) < 9223372036854775807"
    by (simp add: witness0_def stats0_def)
  have b: "sint (TodayChecks (Stats (witness0 StateRunning 77))) < 9223372036854775807"
    by (simp add: witness0_def stats0_def)
  have c: "not_earlier (Some (now (env0 NoFault))) (LastCheckAt (witness0 StateRunning 77))"
    by (simp add: not_earlier_def witness0_def env0_def)
  have d: "fault (env0 NoFault) = NoFault"
    by (simp add: env0_def)
  obtain r w' s' where h: "healthCheck (env0 NoFault) (NewManager rig0) (witness0 StateRunning 77)
          (world0 (Some (Json (witness0 StateRunning 77)))) = (r, w', s')"
    by (cases "healthCheck (env0 NoFault) (NewManager rig0) (witness0 StateRunning 77)
          (world0 (Some (Json (witness0 StateRunning 77))))") auto
  note th = healthCheck_tick [OF a b c d h]
  have w': "w' = (witness0 StateRunning 77)
            \<lparr>LastCheckAt := Some 200,
               Stats := \<lparr>TotalChecks = 8, TotalNudges = 1, TotalEscalations = 0,
                          TodayChecks = 4, TodayNudges = 1\<rparr>\<rparr>"
    using th by (simp add: witness0_def stats0_def env0_def)
  from th have x: "fst (healthCheck (env0 NoFault) (NewManager rig0) (witness0 StateRunning 77)
          (world0 (Some (Json (witness0 StateRunning 77))))) = None"
    and y: "loadState (NewManager rig0)
     (snd (snd (healthCheck (env0 NoFault) (NewManager rig0) (witness0 StateRunning 77)
                  (world0 (Some (Json (witness0 StateRunning 77))))))) = Inr w'"
    by (simp_all add: h)
  from a b c d x y [unfolded w'] show ?thesis
    by blast
qed

text \<open>
  The claim as stated fails at three inputs. The record says \<open>LastCheckAt = 150\<close> and
  the clock reads 100 at the tick: \<open>LastCheckAt\<close> becomes 100, which is earlier. The
  write fails: the tick returns the error and the state file still holds the old
  record. \<open>TotalChecks\<close> is the largest \<open>int\<close>: the increment wraps around to the
  smallest.
\<close>

theorem healthCheck_tick_counterexample:
  "LastCheckAt (witness0 StateRunning 77) = Some 150 \<and>
   LastCheckAt (fst (snd (healthCheck ((env0 NoFault)\<lparr>now := 100\<rparr>) (NewManager rig0)
      (witness0 StateRunning 77) (world0 (Some (Json (witness0 StateRunning 77))))))) = Some 100 \<and>
   fst (healthCheck (env0 WriteFails) (NewManager rig0) (witness0 StateRunning 77)
          (world0 (Some (Json (witness0 StateRunning 77))))) = Some ErrIO \<and>
   loadState (NewManager rig0)
     (snd (snd (healthCheck (env0 WriteFails) (NewManager rig0) (witness0 StateRunning 77)
                  (world0 (Some (Json (witness0 StateRunning 77))))))) =
     Inr (witness0 StateRunning 77) \<and>
   sint (TotalChecks (Stats witness_max)) = 9223372036854775807 \<and>
   sint (TotalChecks (Stats (fst (snd (healthCheck (env0 NoFault) (NewManager rig0)
      witness_max (world0 (Some (Json witness_max)))))))) = - 9223372036854775808"
  by (simp add: healthCheck_result saveState_cases)
     (simp add: env0_def witness0_def witness_max_def max_int_def stats0_def load_world0
        loadState_def os_ReadFile_def json_Unmarshal_def world0_def)

section \<open>The monitoring loop\<close>

lemma run_loop_Cons:
  "run_loop m (e # es) w s =
     run_loop m es (fst (snd (healthCheck e m w s)))
       (case fst (healthCheck e m w s) of
          Some err \<Rightarrow>
            fmt_Println (''Health check error: '' @ Error err) (snd (snd (healthCheck e m w s)))
        | None \<Rightarrow> snd (snd (healthCheck e m w s)))"
  by (simp split: prod.splits option.splits)

lemma run_loop_append:
  "run_loop m (es1 @ es2) w s =
     run_loop m es2 (fst (snd (run_loop m es1 w s))) (snd (snd (run_loop m es1 w s)))"
proof (induction es1 arbitrary: w s)
  case Nil
  show ?case by simp
next
  case (Cons e es1)
  show ?case
    unfolding append_Cons run_loop_Cons by (rule Cons.IH)
qed






section \<open>The counters of the persisted record\<close>

lemma stats_le_refl: "stats_le a a"
  by (simp add: stats_le_def)

lemma stats_le_trans: "stats_le a b \<Longrightarrow> stats_le b c \<Longrightarrow> stats_le a c"
  by (auto simp add: stats_le_def word_sle_eq)

lemma stats_le_tick:
  assumes "sint (TotalChecks a) < 9223372036854775807"
    and "sint (TodayChecks a) < 9223372036854775807"
  shows "stats_le a (a\<lparr>TotalChecks := TotalChecks a + 1, TodayChecks := TodayChecks a + 1\<rparr>)"
  using assms by (simp add: stats_le_def word_sle_eq sint_succ)

lemma loadState_dirs [simp]: "loadState m (s\<lparr>dirs := d\<rparr>) = loadState m s"
  by (simp add: loadState_def os_ReadFile_def)

lemma loadState_signals [simp]: "loadState m (s\<lparr>signals := d\<rparr>) = loadState m s"
  by (simp add: loadState_def os_ReadFile_def)

lemma loadState_Println [simp]: "loadState m (fmt_Println l s) = loadState m s"
  by (simp add: loadState_def os_ReadFile_def fmt_Println_def)

lemma load_after_save:
  "loadState m (snd (saveState e m w s)) =
     (case fault e of
        NoFault \<Rightarrow> Inr w
      | WriteTruncates \<Rightarrow> Inl ErrDecode
      | _ \<Rightarrow> loadState m s)"
  by (cases "fault e")
     (simp_all add: saveState_cases loadState_def os_ReadFile_def json_Unmarshal_def)

lemma load_after_save_cases:
  assumes "loadState m (snd (saveState e m w s)) = Inr p"
  shows "p = w \<or> loadState m s = Inr p"
  using assms by (cases "fault e") (simp_all add: load_after_save)

lemma run_loop_invariant:
  assumes "sint (TotalChecks (Stats w)) + int (length es) \<le> 9223372036854775807"
    and "sint (TodayChecks (Stats w)) + int (length es) \<le> 9223372036854775807"
    and "stats_le L (Stats w)"
    and "\<And>p. loadState m s = Inr p \<Longrightarrow> stats_le L (Stats p) \<and> stats_le (Stats p) (Stats w)"
    and "run_loop m es w s = (r, w', s')"
  shows "stats_le L (Stats w') \<and>
         (\<forall>p. loadState m s' = Inr p \<longrightarrow> stats_le L (Stats p) \<and> stats_le (Stats p) (Stats w')) \<and>
         sint (TotalChecks (Stats w')) = sint (TotalChecks (Stats w)) + int (length es) \<and>
         sint (TodayChecks (Stats w')) = sint (TodayChecks (Stats w)) + int (length es)"
  using assms
proof (induction es arbitrary: w s)
  case Nil
  then show ?case by auto
next
  case (Cons e es)
  let ?w1 = "w\<lparr>LastCheckAt := Some (now e),
                Stats := (Stats w)\<lparr>TotalChecks := TotalChecks (Stats w) + 1,
                                   TodayChecks := TodayChecks (Stats w) + 1\<rparr>\<rparr>"
  let ?s0 = "snd (saveState e m ?w1 s)"
  let ?s1 = "case fst (saveState e m ?w1 s) of
               Some err \<Rightarrow> fmt_Println (''Health check error: '' @ Error err) ?s0
             | None \<Rightarrow> ?s0"
  have lt: "sint (TotalChecks (Stats w)) < 9223372036854775807"
    "sint (TodayChecks (Stats w)) < 9223372036854775807"
    using Cons.prems(1,2) by simp_all
  have st: "Stats ?w1 = (Stats w)\<lparr>TotalChecks := TotalChecks (Stats w) + 1,
                                   TodayChecks := TodayChecks (Stats w) + 1\<rparr>"
    by simp
  have up: "stats_le (Stats w) (Stats ?w1)"
    unfolding st by (rule stats_le_tick [OF lt])
  have n1: "sint (TotalChecks (Stats ?w1)) = sint (TotalChecks (Stats w)) + 1"
    and n2: "sint (TodayChecks (Stats ?w1)) = sint (TodayChecks (Stats w)) + 1"
    using lt by (simp_all add: sint_succ)
  have ld: "loadState m ?s1 = loadState m ?s0"
    by (cases "fst (saveState e m ?w1 s)") simp_all
  have step: "run_loop m es ?w1 ?s1 = (r, w', s')"
    using Cons.prems(5) by (simp only: run_loop_Cons healthCheck_result fst_conv snd_conv)
  have a1: "sint (TotalChecks (Stats ?w1)) + int (length es) \<le> 9223372036854775807"
    using Cons.prems(1) n1 by simp
  have a2: "sint (TodayChecks (Stats ?w1)) + int (length es) \<le> 9223372036854775807"
    using Cons.prems(2) n2 by simp
  have a3: "stats_le L (Stats ?w1)"
    by (rule stats_le_trans [OF Cons.prems(3) up])
  have a4: "stats_le L (Stats p) \<and> stats_le (Stats p) (Stats ?w1)"
    if "loadState m ?s1 = Inr p" for p
  proof -
    from that ld have "loadState m ?s0 = Inr p" by simp
    then consider "p = ?w1" | "loadState m s = Inr p"
      using load_after_save_cases by blast
    then show ?thesis
    proof cases
      case 1
      then show ?thesis using a3 stats_le_refl by simp
    next
      case 2
      from Cons.prems(4) [OF 2] show ?thesis
        using up stats_le_trans by blast
    qed
  qed
  from Cons.IH [OF a1 a2 a3 a4 step] show ?case
    using n1 n2 by simp
qed


lemma run_monotone:
  assumes "loadState m s = Inr w"
    and "sint (TotalChecks (Stats w)) + int (length (ticks @ later)) \<le> 9223372036854775807"
    and "sint (TodayChecks (Stats w)) + int (length (ticks @ later)) \<le> 9223372036854775807"
    and "loadState m (snd (snd (run m ticks w s))) = Inr a"
    and "loadState m (snd (snd (run m (ticks @ later) w s))) = Inr b"
  shows "stats_le (Stats w) (Stats a) \<and> stats_le (Stats a) (Stats b)"
proof -
  let ?s0 = "fmt_Println ''Press Ctrl+C to stop'' (fmt_Println ''Witness running...'' s)"
  obtain r1 w1 s1 where r1: "run_loop m ticks w ?s0 = (r1, w1, s1)"
    by (cases "run_loop m ticks w ?s0") auto
  obtain r2 w2 s2 where r2: "run_loop m later w1 s1 = (r2, w2, s2)"
    by (cases "run_loop m later w1 s1") auto
  have la: "loadState m s1 = Inr a"
    using assms(4) r1 by (simp add: run_def)
  have lb: "loadState m s2 = Inr b"
    using assms(5) r1 r2 by (simp add: run_def run_loop_append)
  have l0: "loadState m ?s0 = Inr w"
    using assms(1) by simp
  have i1: "stats_le (Stats w) (Stats w1) \<and>
         (\<forall>p. loadState m s1 = Inr p \<longrightarrow>
              stats_le (Stats w) (Stats p) \<and> stats_le (Stats p) (Stats w1)) \<and>
         sint (TotalChecks (Stats w1)) = sint (TotalChecks (Stats w)) + int (length ticks) \<and>
         sint (TodayChecks (Stats w1)) = sint (TodayChecks (Stats w)) + int (length ticks)"
  proof (rule run_loop_invariant [OF _ _ _ _ r1])
    show "sint (TotalChecks (Stats w)) + int (length ticks) \<le> 9223372036854775807"
      using assms(2) by simp
    show "sint (TodayChecks (Stats w)) + int (length ticks) \<le> 9223372036854775807"
      using assms(3) by simp
    show "stats_le (Stats w) (Stats w)"
      by (rule stats_le_refl)
    show "stats_le (Stats w) (Stats p) \<and> stats_le (Stats p) (Stats w)"
      if "loadState m ?s0 = Inr p" for p
      using that l0 by (simp add: stats_le_refl)
  qed
  from i1 la have wa: "stats_le (Stats w) (Stats a)" and aw1: "stats_le (Stats a) (Stats w1)"
    by blast+
  have i2: "stats_le (Stats a) (Stats w2) \<and>
         (\<forall>p. loadState m s2 = Inr p \<longrightarrow>
              stats_le (Stats a) (Stats p) \<and> stats_le (Stats p) (Stats w2)) \<and>
         sint (TotalChecks (Stats w2)) = sint (TotalChecks (Stats w1)) + int (length later) \<and>
         sint (TodayChecks (Stats w2)) = sint (TodayChecks (Stats w1)) + int (length later)"
  proof (rule run_loop_invariant [OF _ _ _ _ r2])
    show "sint (TotalChecks (Stats w1)) + int (length later) \<le> 9223372036854775807"
      using assms(2) i1 by simp
    show "sint (TodayChecks (Stats w1)) + int (length later) \<le> 9223372036854775807"
      using assms(3) i1 by simp
    show "stats_le (Stats a) (Stats w1)"
      by (rule aw1)
    show "stats_le (Stats a) (Stats p) \<and> stats_le (Stats p) (Stats w1)"
      if "loadState m s1 = Inr p" for p
      using that la aw1 by (simp add: stats_le_refl)
  qed
  from i2 lb have "stats_le (Stats a) (Stats b)"
    by blast
  with wa show ?thesis by simp
qed

lemma loadState_Process_Signal [simp]:
  "loadState m (snd (Process_Signal e p sig s)) = loadState m s"
  by (simp add: Process_Signal_def split: option.splits)

lemma Status_keeps_stats:
  assumes "loadState m s = Inr w" and "loadState m (snd (Status e m s)) = Inr p"
  shows "Stats p = Stats w"
proof (cases "State w = StateRunning \<and> 0 <s PID w")
  case True
  with assms have "loadState m (snd (saveState e m (w\<lparr>State := StateStopped, PID := 0\<rparr>) s)) = Inr p"
    by (simp add: Status_def processExists_False)
  from load_after_save_cases [OF this] assms(1) show ?thesis
    by auto
next
  case False
  with assms show ?thesis
    by (auto simp add: Status_def)
qed

lemma Stop_keeps_stats:
  assumes "loadState m s = Inr w" and "loadState m (snd (Stop e m s)) = Inr p"
  shows "Stats p = Stats w"
proof (cases "State w = StateRunning")
  case True
  let ?s1 = "if 0 <s PID w \<and> PID w \<noteq> getpid e
             then (case os_FindProcess (PID w) of
                     Inr proc \<Rightarrow> snd (Process_Signal e proc (Some Interrupt) s)
                   | Inl err \<Rightarrow> s)
             else s"
  have l1: "loadState m ?s1 = Inr w"
    using assms(1) by (simp add: os_FindProcess_def)
  from True assms have "loadState m (snd (saveState e m (w\<lparr>State := StateStopped, PID := 0\<rparr>) ?s1)) = Inr p"
    by (simp add: Stop_def Let_def)
  from load_after_save_cases [OF this] l1 show ?thesis
    by auto
next
  case False
  with assms show ?thesis
    by (simp add: Stop_def)
qed

lemma Start_monotone:
  assumes "loadState m s = Inr w"
    and "sint (TotalChecks (Stats w)) + int (length (ticks @ later)) \<le> 9223372036854775807"
    and "sint (TodayChecks (Stats w)) + int (length (ticks @ later)) \<le> 9223372036854775807"
    and "loadState m (snd (Start e m fg ticks s)) = Inr a"
    and "loadState m (snd (Start e m fg (ticks @ later) s)) = Inr b"
  shows "stats_le (Stats w) (Stats a) \<and> stats_le (Stats a) (Stats b)"
proof -
  let ?w0 = "w\<lparr>State := StateRunning, StartedAt := Some (now e),
                PID := getpid e, MonitoredPolecats := Polecats (rig m)\<rparr>"
  let ?s1 = "snd (saveState e m ?w0 s)"
  show ?thesis
  proof (cases "fault e = NoFault \<and> fg")
    case True
    then have nf: "fault e = NoFault" and fg: fg by simp_all
    have l1: "loadState m ?s1 = Inr ?w0"
      by (simp add: load_after_save nf)
    have sa: "snd (Start e m fg T s) = snd (snd (run m T ?w0 ?s1))" for T
      by (cases "saveState e m ?w0 s")
         (use nf fg in \<open>simp add: Start_loaded [OF assms(1)] saveState_cases\<close>)
    from run_monotone [OF l1, of ticks later a b] assms(2-5) show ?thesis
      by (simp add: sa)
  next
    case False
    have sa: "snd (Start e m fg T s) = ?s1" for T
      using False
      by (cases "fault e"; cases fg)
         (simp_all add: Start_loaded [OF assms(1)] saveState_cases)
    from assms(4) have "loadState m ?s1 = Inr a" by (simp add: sa)
    from load_after_save_cases [OF this] assms(1)
    have eq: "Stats a = Stats w" by auto
    from assms(4,5) have "a = b" by (simp add: sa)
    with eq show ?thesis by (simp add: stats_le_refl)
  qed
qed

lemma tick_keeps_order:
  assumes "loadState m s = Inr w"
    and "stats_le (Stats w) (Stats v)"
    and "sint (TotalChecks (Stats v)) < 9223372036854775807"
    and "sint (TodayChecks (Stats v)) < 9223372036854775807"
    and "loadState m (snd (snd (healthCheck e m v s))) = Inr p"
  shows "stats_le (Stats w) (Stats p)"
proof -
  let ?v1 = "v\<lparr>LastCheckAt := Some (now e),
                Stats := (Stats v)\<lparr>TotalChecks := TotalChecks (Stats v) + 1,
                                   TodayChecks := TodayChecks (Stats v) + 1\<rparr>\<rparr>"
  from assms(5) have "loadState m (snd (saveState e m ?v1 s)) = Inr p"
    by (simp add: healthCheck_result)
  then consider "p = ?v1" | "loadState m s = Inr p"
    using load_after_save_cases by blast
  then show ?thesis
  proof cases
    case 1
    have "stats_le (Stats v) (Stats ?v1)"
      using stats_le_tick [OF assms(3,4)] by simp
    with assms(2) 1 show ?thesis
      using stats_le_trans by blast
  next
    case 2
    with assms(1) show ?thesis by (simp add: stats_le_refl)
  qed
qed

text \<open>
  Claim C8, as amended. Let the state file hold a record. \<open>Status\<close> and \<open>Stop\<close>
  leave every stats counter of the persisted record as it was. For one \<open>Start\<close> call
  whose loop is the only writer of the state file, as long as its ticks do not carry
  \<open>TotalChecks\<close> or \<open>TodayChecks\<close> past the largest \<open>int\<close>: the record persisted after
  any number of ticks has no counter below the record persisted before the call, and
  the record persisted after further ticks has no counter below that one. And a single
  health-check tick, whatever loop makes it, leaves no persisted counter below its
  value before the tick when the record the loop holds in memory has no counter below
  the persisted one and its two check counters are below the largest \<open>int\<close>.
\<close>

theorem counters_never_decrease:
  assumes "loadState m s = Inr w"
  shows "(\<forall>p. loadState m (snd (Status e m s)) = Inr p \<longrightarrow> Stats p = Stats w) \<and>
         (\<forall>p. loadState m (snd (Stop e m s)) = Inr p \<longrightarrow> Stats p = Stats w) \<and>
         (sint (TotalChecks (Stats w)) + int (length (ticks @ later)) \<le> 9223372036854775807 \<and>
          sint (TodayChecks (Stats w)) + int (length (ticks @ later)) \<le> 9223372036854775807 \<longrightarrow>
          (\<forall>a b. loadState m (snd (Start e m fg ticks s)) = Inr a \<and>
                 loadState m (snd (Start e m fg (ticks @ later) s)) = Inr b \<longrightarrow>
                 stats_le (Stats w) (Stats a) \<and> stats_le (Stats a) (Stats b))) \<and>
         (\<forall>v p. stats_le (Stats w) (Stats v) \<and>
                sint (TotalChecks (Stats v)) < 9223372036854775807 \<and>
                sint (TodayChecks (Stats v)) < 9223372036854775807 \<and>
                loadState m (snd (snd (healthCheck e m v s))) = Inr p \<longrightarrow>
                stats_le (Stats w) (Stats p))"
  using Status_keeps_stats [OF assms] Stop_keeps_stats [OF assms] Start_monotone [OF assms]
    tick_keeps_order [OF assms]
  by blast

lemma Start_foreground_world0:
  "loadState (NewManager rig0)
     (snd (Start (env0 NoFault) (NewManager rig0) True T (world0 (Some (Json w))))) =
   loadState (NewManager rig0)
     (snd (snd (run_loop (NewManager rig0) T
        (w\<lparr>State := StateRunning, StartedAt := Some 200, PID := 77,
            MonitoredPolecats := [''Toast'', ''Nux'']\<rparr>)
        (world0 (Some (Json (w\<lparr>State := StateRunning, StartedAt := Some 200, PID := 77,
            MonitoredPolecats := [''Toast'', ''Nux'']\<rparr>)))))))"
proof -
  have r: "Polecats (rig (NewManager rig0)) = [''Toast'', ''Nux'']"
    by (simp add: NewManager_def rig0_def)
  have n: "now (env0 NoFault) = 200" "getpid (env0 NoFault) = 77" "fault (env0 NoFault) = NoFault"
    by (simp_all add: env0_def)
  have c: "loadState m (snd (snd (run_loop m T v s))) = loadState m (snd (snd (run_loop m T v s')))"
    if "files s = files s'" for m T v s s'
    using that
  proof (induction T arbitrary: v s s')
    case Nil
    then show ?case by (simp add: loadState_def os_ReadFile_def)
  next
    case (Cons e T)
    show ?case
      unfolding run_loop_Cons healthCheck_result fst_conv snd_conv
      by (rule Cons.IH)
         (cases "fault e"; simp add: saveState_cases fmt_Println_def Cons.prems)
  qed
  show ?thesis
    unfolding Start_loaded [OF load_world0] saveState_NoFault [OF n(3)] r n
    by (simp add: run_def) (rule c, simp add: fmt_Println_def world0_def fun_eq_iff)
qed

theorem counters_never_decrease_witness:
  "loadState (NewManager rig0) (world0 (Some (Json (witness0 StateStopped 0)))) =
     Inr (witness0 StateStopped 0) \<and>
   sint (TotalChecks (Stats (witness0 StateStopped 0))) +
     int (length ([env0 NoFault] @ [env0 WriteFails, env0 NoFault])) \<le> 9223372036854775807 \<and>
   sint (TodayChecks (Stats (witness0 StateStopped 0))) +
     int (length ([env0 NoFault] @ [env0 WriteFails, env0 NoFault])) \<le> 9223372036854775807 \<and>
   loadState (NewManager rig0)
     (snd (Start (env0 NoFault) (NewManager rig0) True [env0 NoFault]
            (world0 (Some (Json (witness0 StateStopped 0)))))) =
     Inr ((witness0 StateRunning 77)
            \<lparr>StartedAt := Some 200, MonitoredPolecats := [''Toast'', ''Nux''],
               LastCheckAt := Some 200,
               Stats := stats0\<lparr>TotalChecks := 8, TodayChecks := 4\<rparr>\<rparr>) \<and>
   loadState (NewManager rig0)
     (snd (Start (env0 NoFault) (NewManager rig0) True
            ([env0 NoFault] @ [env0 WriteFails, env0 NoFault])
            (world0 (Some (Json (witness0 StateStopped 0)))))) =
     Inr ((witness0 StateRunning 77)
            \<lparr>StartedAt := Some 200, MonitoredPolecats := [''Toast'', ''Nux''],
               LastCheckAt := Some 200,
               Stats := stats0\<lparr>TotalChecks := 10, TodayChecks := 6\<rparr>\<rparr>) \<and>
   stats_le (Stats (witness0 StateStopped 0)) (stats0\<lparr>TotalChecks := 8, TodayChecks := 4\<rparr>) \<and>
   stats_le (stats0\<lparr>TotalChecks := 8, TodayChecks := 4\<rparr>)
     (stats0\<lparr>TotalChecks := 10, TodayChecks := 6\<rparr>) \<and>
   stats_le (Stats (witness0 StateStopped 0)) (Stats witness_ahead) \<and>
   sint (TotalChecks (Stats witness_ahead)) < 9223372036854775807 \<and>
   sint (TodayChecks (Stats witness_ahead)) < 9223372036854775807 \<and>
   loadState (NewManager rig0)
     (snd (snd (healthCheck (env0 NoFault) (NewManager rig0) witness_ahead
                  (world0 (Some (Json (witness0 StateStopped 0))))))) =
     Inr (witness_ahead
            \<lparr>LastCheckAt := Some 200,
               Stats := stats0\<lparr>TotalChecks := 11, TodayChecks := 7\<rparr>\<rparr>) \<and>
   stats_le (Stats (witness0 StateStopped 0)) (stats0\<lparr>TotalChecks := 11, TodayChecks := 7\<rparr>)"
proof -
  have a: "loadState (NewManager rig0) (world0 (Some (Json (witness0 StateStopped 0)))) =
     Inr (witness0 StateStopped 0)"
    by (rule load_world0)
  have b: "sint (TotalChecks (Stats (witness0 StateStopped 0))) +
     int (length ([env0 NoFault] @ [env0 WriteFails, env0 NoFault])) \<le> 9223372036854775807"
    by (simp add: witness0_def stats0_def)
  have c: "sint (TodayChecks (Stats (witness0 StateStopped 0))) +
     int (length ([env0 NoFault] @ [env0 WriteFails, env0 NoFault])) \<le> 9223372036854775807"
    by (simp add: witness0_def stats0_def)
  have d: "loadState (NewManager rig0)
     (snd (Start (env0 NoFault) (NewManager rig0) True [env0 NoFault]
            (world0 (Some (Json (witness0 StateStopped 0)))))) =
     Inr ((witness0 StateRunning 77)
            \<lparr>StartedAt := Some 200, MonitoredPolecats := [''Toast'', ''Nux''],
               LastCheckAt := Some 200,
               Stats := stats0\<lparr>TotalChecks := 8, TodayChecks := 4\<rparr>\<rparr>)"
    unfolding Start_foreground_world0
    by (simp add: run_loop_Cons healthCheck_result saveState_cases env0_def loadState_Json)
       (simp add: witness0_def stats0_def)
  have f: "loadState (NewManager rig0)
     (snd (Start (env0 NoFault) (NewManager rig0) True
            ([env0 NoFault] @ [env0 WriteFails, env0 NoFault])
            (world0 (Some (Json (witness0 StateStopped 0)))))) =
     Inr ((witness0 StateRunning 77)
            \<lparr>StartedAt := Some 200, MonitoredPolecats := [''Toast'', ''Nux''],
               LastCheckAt := Some 200,
               Stats := stats0\<lparr>TotalChecks := 10, TodayChecks := 6\<rparr>\<rparr>)"
    unfolding Start_foreground_world0
    by (simp add: run_loop_Cons healthCheck_result saveState_cases env0_def loadState_Json
          fmt_Println_def)
       (simp add: witness0_def stats0_def)
  from counters_never_decrease [OF a, THEN conjunct2, THEN conjunct2, THEN conjunct1,
      rule_format, OF conjI [OF b c] conjI [OF d f]]
  have g: "stats_le (Stats (witness0 StateStopped 0)) (stats0\<lparr>TotalChecks := 8, TodayChecks := 4\<rparr>) \<and>
   stats_le (stats0\<lparr>TotalChecks := 8, TodayChecks := 4\<rparr>)
     (stats0\<lparr>TotalChecks := 10, TodayChecks := 6\<rparr>)"
    by simp
  have h1: "stats_le (Stats (witness0 StateStopped 0)) (Stats witness_ahead)"
    by (simp add: stats_le_def witness0_def witness_ahead_def stats0_def word_sle_eq)
  have h2: "sint (TotalChecks (Stats witness_ahead)) < 9223372036854775807"
    and h3: "sint (TodayChecks (Stats witness_ahead)) < 9223372036854775807"
    by (simp_all add: witness_ahead_def stats0_def)
  have h4: "loadState (NewManager rig0)
     (snd (snd (healthCheck (env0 NoFault) (NewManager rig0) witness_ahead
                  (world0 (Some (Json (witness0 StateStopped 0))))))) =
     Inr (witness_ahead
            \<lparr>LastCheckAt := Some 200,
               Stats := stats0\<lparr>TotalChecks := 11, TodayChecks := 7\<rparr>\<rparr>)"
    by (simp add: healthCheck_result saveState_cases env0_def loadState_Json)
       (simp add: witness_ahead_def witness0_def stats0_def)
  from counters_never_decrease [OF a, THEN conjunct2, THEN conjunct2, THEN conjunct2,
      rule_format, OF conjI [OF h1 conjI [OF h2 conjI [OF h3 h4]]]]
  have k: "stats_le (Stats (witness0 StateStopped 0))
     (stats0\<lparr>TotalChecks := 11, TodayChecks := 7\<rparr>)"
    by simp
  from a b c d f g h1 h2 h3 h4 k show ?thesis
    by blast
qed

text \<open>
  The claim as stated fails at two inputs. The state file holds a Stopped record whose
  \<open>TotalChecks\<close> is the largest \<open>int\<close>: after \<open>Start\<close> in the foreground and one tick
  the persisted counter has wrapped around to the smallest \<open>int\<close>. And the state file
  holds 10 and 6 checks while the loop that ticks still holds 7 and 3 in memory (the
  file was written by another loop on the same rig in the meantime): its tick persists
  8 and 4.
\<close>

theorem counters_never_decrease_counterexample:
  "loadState (NewManager rig0) (world0 (Some (Json stopped_max))) = Inr stopped_max \<and>
   State stopped_max = StateStopped \<and>
   TotalChecks (Stats stopped_max) = max_int \<and>
   loadState (NewManager rig0)
     (snd (Start (env0 NoFault) (NewManager rig0) True [env0 NoFault]
            (world0 (Some (Json stopped_max))))) =
     Inr (stopped_max
            \<lparr>State := StateRunning, StartedAt := Some 200, PID := 77,
               MonitoredPolecats := [''Toast'', ''Nux''], LastCheckAt := Some 200,
               Stats := stats0\<lparr>TotalChecks := max_int + 1, TodayChecks := 4\<rparr>\<rparr>) \<and>
   \<not> max_int \<le>s max_int + 1 \<and>
   sint max_int = 9223372036854775807 \<and>
   sint (max_int + 1) = - 9223372036854775808 \<and>
   loadState (NewManager rig0) (world0 (Some (Json witness_ahead))) = Inr witness_ahead \<and>
   Stats witness_ahead = stats0\<lparr>TotalChecks := 10, TodayChecks := 6\<rparr> \<and>
   Stats (witness0 StateRunning 77) = stats0 \<and>
   loadState (NewManager rig0)
     (snd (snd (healthCheck (env0 NoFault) (NewManager rig0) (witness0 StateRunning 77)
                  (world0 (Some (Json witness_ahead)))))) =
     Inr ((witness0 StateRunning 77)
            \<lparr>LastCheckAt := Some 200,
               Stats := stats0\<lparr>TotalChecks := 8, TodayChecks := 4\<rparr>\<rparr>) \<and>
   \<not> stats_le (stats0\<lparr>TotalChecks := 10, TodayChecks := 6\<rparr>)
         (stats0\<lparr>TotalChecks := 8, TodayChecks := 4\<rparr>)"
proof -
  have d: "loadState (NewManager rig0)
     (snd (Start (env0 NoFault) (NewManager rig0) True [env0 NoFault]
            (world0 (Some (Json stopped_max))))) =
     Inr (stopped_max
            \<lparr>State := StateRunning, StartedAt := Some 200, PID := 77,
               MonitoredPolecats := [''Toast'', ''Nux''], LastCheckAt := Some 200,
               Stats := stats0\<lparr>TotalChecks := max_int + 1, TodayChecks := 4\<rparr>\<rparr>)"
    unfolding Start_foreground_world0
    by (simp add: run_loop_Cons healthCheck_result saveState_cases env0_def loadState_Json)
       (simp add: stopped_max_def witness0_def stats0_def)
  have m: "\<not> max_int \<le>s max_int + 1"
    by (simp add: max_int_def word_sle_eq)
  have n: "sint max_int = 9223372036854775807" "sint (max_int + 1) = - 9223372036854775808"
    by (simp_all add: max_int_def)
  have t: "loadState (NewManager rig0)
     (snd (snd (healthCheck (env0 NoFault) (NewManager rig0) (witness0 StateRunning 77)
                  (world0 (Some (Json witness_ahead)))))) =
     Inr ((witness0 StateRunning 77)
            \<lparr>LastCheckAt := Some 200,
               Stats := stats0\<lparr>TotalChecks := 8, TodayChecks := 4\<rparr>\<rparr>)"
    by (simp add: healthCheck_result saveState_cases env0_def loadState_Json)
       (simp add: witness0_def stats0_def)
  have l: "\<not> stats_le (stats0\<lparr>TotalChecks := 10, TodayChecks := 6\<rparr>)
         (stats0\<lparr>TotalChecks := 8, TodayChecks := 4\<rparr>)"
    by (simp add: stats_le_def word_sle_eq)
  have s: "State stopped_max = StateStopped" "TotalChecks (Stats stopped_max) = max_int"
    "Stats witness_ahead = stats0\<lparr>TotalChecks := 10, TodayChecks := 6\<rparr>"
    "Stats (witness0 StateRunning 77) = stats0"
    by (simp_all add: stopped_max_def witness_ahead_def witness0_def)
  from d m n t l s load_world0 [of stopped_max] load_world0 [of witness_ahead] show ?thesis
    by blast
qed

end
